theory Spec2Isabelle
  imports Complex_Main
begin

section \<open>Viseme segment capture and export (Lipsync demo page)\<close>

text \<open>
  The theory embeds the capture state machine of the page script that records viseme
  segments and exports them as a mouth-cue document: \<open>round2\<close>, \<open>resetCapture\<close>, the
  capture step of \<open>analyzeAudio\<close>, \<open>finalizeAndDownloadJSON\<close> and the click handlers of
  the play and stop buttons together with the \<open>ended\<close> handler.

  JavaScript numbers are modelled as exact real numbers: a time stamp is a \<^typ>\<open>real\<close>, and
  a number that may be \<open>NaN\<close> (the \<open>duration\<close> of an audio element before its metadata is
  known) is a \<^typ>\<open>real option\<close> with \<open>None\<close> for \<open>NaN\<close>. Binary floating-point rounding
  of \<open>t * 100\<close> and of the division by \<open>100\<close> is therefore not part of the model.
  The DOM updates, the status toast and the download of the serialised document do not
  touch the capture state and are left out; the document that is serialised is returned
  by the model of \<open>finalizeAndDownloadJSON\<close>.
\<close>

subsection \<open>Data\<close>

text \<open>A mouth cue \<open>{start, end, value}\<close>.\<close>

record segment =
  seg_start :: real
  seg_end :: real
  seg_value :: string

text \<open>The module-level variables under ``Capture state for JSON export''.\<close>

record capture =
  mouthCues :: "segment list"
  currentViseme :: string
  segmentStart :: real
  uploadedFileName :: string
  audioDuration :: real

text \<open>The fields of the audio element that the script reads and writes.\<close>

record audio =
  paused :: bool
  currentTime :: real
  duration :: "real option"

text \<open>The object \<open>data\<close> that \<open>finalizeAndDownloadJSON\<close> serialises.\<close>

record metadata =
  soundFile :: string
  md_duration :: real

record export_data =
  data_metadata :: metadata
  data_mouthCues :: "segment list"

text \<open>The values the capture variables are declared with.\<close>

definition initialCapture :: capture where
  "initialCapture =
     \<lparr>mouthCues = [], currentViseme = ''X'', segmentStart = 0, uploadedFileName = [],
      audioDuration = 0\<rparr>"

subsection \<open>Utilities\<close>

text \<open>\<open>Math.round\<close>: the nearest integer, a tie going towards \<open>+\<infinity>\<close>.\<close>

definition math_round :: "real \<Rightarrow> int" where
  "math_round x = \<lfloor>x + 1 / 2\<rfloor>"

text \<open>
  \<open>const round2 = (t) => Math.round(t * 100) / 100\<close>. The product and the quotient
  are exact here. The script computes both in binary floating point, so on a time whose
  product with 100 is not representable its result can differ from this one by a
  hundredth; on the times used below (0, 0.1, 0.2, 0.3, 0.5, 1, 1.2, 1.25, 3.5) the two
  agree.
\<close>

definition round2 :: "real \<Rightarrow> real" where
  "round2 t = of_int (math_round (t * 100)) / 100"

text \<open>
  \<open>x || y\<close> on numbers: \<open>y\<close> when \<open>x\<close> is falsy, that is \<open>NaN\<close> or \<open>0\<close>, and \<open>x\<close>
  otherwise.
\<close>

definition num_or :: "real option \<Rightarrow> real \<Rightarrow> real" where
  "num_or x y = (case x of None \<Rightarrow> y | Some v \<Rightarrow> if v = 0 then y else v)"

text \<open>
  \<open>x || y\<close> on strings: \<open>y\<close> when \<open>x\<close> is \<open>undefined\<close> (\<open>None\<close>) or the empty string.
\<close>

definition str_or :: "string option \<Rightarrow> string \<Rightarrow> string" where
  "str_or x y = (case x of None \<Rightarrow> y | Some v \<Rightarrow> if v = [] then y else v)"

subsection \<open>Operations on the capture state\<close>

text \<open>\<open>resetCapture\<close>: the file name is not among the variables it assigns.\<close>

definition resetCapture :: "capture \<Rightarrow> capture" where
  "resetCapture s =
     s\<lparr>mouthCues := [], currentViseme := ''X'', segmentStart := 0, audioDuration := 0\<rparr>"

text \<open>
  The capture step of \<open>analyzeAudio\<close>, from the initialisation of the first segment to
  the end of the block that runs when the viseme has changed; \<open>now\<close> and \<open>viseme\<close> are
  the two constants the function has read before.
\<close>

definition sample :: "real \<Rightarrow> string \<Rightarrow> capture \<Rightarrow> capture" where
  "sample now viseme s =
     (let s1 = (if mouthCues s = [] \<and> now = 0
                then s\<lparr>currentViseme := viseme, segmentStart := 0\<rparr>
                else s)
      in if viseme \<noteq> currentViseme s1
         then s1\<lparr>mouthCues := mouthCues s1 @
                     [\<lparr>seg_start = round2 (segmentStart s1), seg_end = round2 now,
                       seg_value = currentViseme s1\<rparr>],
                  currentViseme := viseme,
                  segmentStart := now\<rparr>
         else s1)"

text \<open>
  \<open>analyzeAudio\<close>: nothing happens while the element is paused; otherwise the current
  time and the analyser's viseme (given as \<open>v\<close>, \<open>None\<close> when it has none) are read with
  their defaults and the capture step runs.
\<close>

definition analyzeAudio :: "audio \<Rightarrow> string option \<Rightarrow> capture \<Rightarrow> capture" where
  "analyzeAudio a v s =
     (if paused a then s
      else sample (num_or (Some (currentTime a)) 0) (str_or v ''X'') s)"

text \<open>
  \<open>const endTime = audioPlayer.duration || audioPlayer.currentTime || 0\<close>, the first
  line of \<open>finalizeAndDownloadJSON\<close>.
\<close>

definition endTime :: "audio \<Rightarrow> real" where
  "endTime a = num_or (duration a) (num_or (Some (currentTime a)) 0)"

text \<open>
  \<open>finalizeAndDownloadJSON\<close>, first block: the open segment is closed at \<open>endTime\<close> when
  it does not start after it.
\<close>

definition finalize :: "real \<Rightarrow> capture \<Rightarrow> capture" where
  "finalize e s =
     (if segmentStart s \<le> e
      then s\<lparr>mouthCues := mouthCues s @
                  [\<lparr>seg_start = round2 (segmentStart s), seg_end = round2 e,
                    seg_value = currentViseme s\<rparr>]\<rparr>
      else s)"

text \<open>\<open>finalizeAndDownloadJSON\<close>, second block: the object \<open>data\<close>.\<close>

definition exportDocument :: "real \<Rightarrow> capture \<Rightarrow> export_data" where
  "exportDocument e s =
     \<lparr>data_metadata =
        \<lparr>soundFile = str_or (Some (uploadedFileName s)) ''unknown'',
         md_duration = round2 e\<rparr>,
      data_mouthCues = mouthCues s\<rparr>"

text \<open>
  \<open>finalizeAndDownloadJSON\<close> as a whole: the capture state it leaves and the document
  it serialises.
\<close>

definition finalizeAndDownloadJSON :: "audio \<Rightarrow> capture \<Rightarrow> capture \<times> export_data" where
  "finalizeAndDownloadJSON a s =
     (let s1 = (if segmentStart s \<le> endTime a
                then s\<lparr>mouthCues := mouthCues s @
                            [\<lparr>seg_start = round2 (segmentStart s),
                              seg_end = round2 (endTime a),
                              seg_value = currentViseme s\<rparr>]\<rparr>
                else s);
          data = \<lparr>data_metadata =
                    \<lparr>soundFile = str_or (Some (uploadedFileName s1)) ''unknown'',
                     md_duration = round2 (endTime a)\<rparr>,
                  data_mouthCues = mouthCues s1\<rparr>
      in (s1, data))"

text \<open>
  The click handler of the stop button, its block ``Close any open segment up to current
  time (0)'': with nothing captured a cue \<open>{0, 0, 'X'}\<close> is pushed, otherwise the open
  segment is closed at the element's current time when it starts strictly before it.
\<close>

definition stopClose :: "audio \<Rightarrow> capture \<Rightarrow> capture" where
  "stopClose a s =
     (if mouthCues s = []
      then s\<lparr>mouthCues := mouthCues s @ [\<lparr>seg_start = 0, seg_end = 0, seg_value = ''X''\<rparr>]\<rparr>
      else (let endTime' = num_or (Some (currentTime a)) 0
            in if segmentStart s < endTime'
               then s\<lparr>mouthCues := mouthCues s @
                           [\<lparr>seg_start = round2 (segmentStart s),
                             seg_end = round2 endTime',
                             seg_value = currentViseme s\<rparr>]\<rparr>
               else s))"

text \<open>
  The whole click handler of the stop button: playback is paused and rewound, the block
  above runs, the document is exported and the capture state is reset. The result is the
  audio element, the capture state left behind and the exported document.
\<close>

definition stopBtn_click :: "audio \<Rightarrow> capture \<Rightarrow> audio \<times> capture \<times> export_data" where
  "stopBtn_click a s =
     (let a1 = a\<lparr>paused := True, currentTime := 0\<rparr>;
          s1 = stopClose a1 s;
          (s2, data) = finalizeAndDownloadJSON a1 s1
      in (a1, resetCapture s2, data))"


text \<open>A run of capture steps, one per animation frame, oldest first.\<close>

fun samples :: "(real \<times> string) list \<Rightarrow> capture \<Rightarrow> capture" where
  "samples [] s = s"
| "samples ((now, viseme) # fs) s = samples fs (sample now viseme s)"

subsection \<open>Predicates on cue lists\<close>

text \<open>Every cue starts where the one before it ends.\<close>

fun contiguous :: "segment list \<Rightarrow> bool" where
  "contiguous (g # h # gs) = (seg_end g = seg_start h \<and> contiguous (h # gs))"
| "contiguous _ = True"


text \<open>
  The invariant behind contiguity: the cues pushed so far are contiguous; while there is
  none the open segment starts at 0, and afterwards the first cue starts at 0 and the last
  one ends at the rounded start of the open segment.
\<close>

definition chained :: "capture \<Rightarrow> bool" where
  "chained s =
     (contiguous (mouthCues s) \<and>
      (if mouthCues s = [] then segmentStart s = 0
       else seg_start (hd (mouthCues s)) = 0 \<and>
            seg_end (last (mouthCues s)) = round2 (segmentStart s)))"


section \<open>Properties\<close>

subsection \<open>Rounding\<close>

lemma num_or_Some_0: "num_or (Some x) 0 = x"
  by (simp add: num_or_def)



lemma round2_0: "round2 0 = 0"
  by (simp add: round2_def math_round_def)




subsection \<open>The capture step and the export, case by case\<close>

lemma sample_cases:
  "sample now v s =
    (if mouthCues s = [] \<and> now = 0 then s\<lparr>currentViseme := v, segmentStart := 0\<rparr>
     else if v \<noteq> currentViseme s then
       s\<lparr>mouthCues := mouthCues s @
             [\<lparr>seg_start = round2 (segmentStart s), seg_end = round2 now,
               seg_value = currentViseme s\<rparr>],
         currentViseme := v, segmentStart := now\<rparr>
     else s)"
  by (simp add: sample_def Let_def)

lemma analyzeAudio_playing:
  "\<not> paused a \<Longrightarrow> analyzeAudio a v s = sample (currentTime a) (str_or v ''X'') s"
  by (simp add: analyzeAudio_def num_or_Some_0)

lemma finalizeAndDownloadJSON_blocks:
  "finalizeAndDownloadJSON a s =
     (finalize (endTime a) s, exportDocument (endTime a) (finalize (endTime a) s))"
  by (simp add: finalizeAndDownloadJSON_def finalize_def exportDocument_def Let_def)

lemma stopBtn_click_data:
  "snd (snd (stopBtn_click a s)) =
     snd (finalizeAndDownloadJSON (a\<lparr>paused := True, currentTime := 0\<rparr>)
            (stopClose (a\<lparr>paused := True, currentTime := 0\<rparr>) s))"
  by (simp add: stopBtn_click_def Let_def split: prod.splits)


subsection \<open>Contiguity\<close>

lemma contiguous_snoc:
  "contiguous gs \<Longrightarrow> (gs \<noteq> [] \<Longrightarrow> seg_end (last gs) = seg_start g) \<Longrightarrow>
   contiguous (gs @ [g])"
  by (induction gs rule: contiguous.induct) auto

lemma contiguous_nth:
  "contiguous gs \<Longrightarrow> Suc i < length gs \<Longrightarrow> seg_end (gs ! i) = seg_start (gs ! Suc i)"
proof (induction gs arbitrary: i rule: contiguous.induct)
  case (1 g h gs)
  then show ?case by (cases i) auto
qed auto

lemma chained_reset: "chained (resetCapture s)"
  by (simp add: chained_def resetCapture_def)

lemma chained_sample: "chained s \<Longrightarrow> chained (sample now v s)"
  by (cases "mouthCues s = []")
     (auto simp: chained_def sample_cases round2_0 contiguous_snoc)

lemma chained_samples: "chained s \<Longrightarrow> chained (samples fs s)"
  by (induction fs arbitrary: s) (auto simp: chained_sample)

lemma chained_finalize:
  assumes "chained s"
  shows "contiguous (mouthCues (finalize e s))"
    and "mouthCues (finalize e s) \<noteq> [] \<Longrightarrow> seg_start (hd (mouthCues (finalize e s))) = 0"
    and "0 \<le> e \<Longrightarrow> mouthCues (finalize e s) \<noteq> []"
  using assms
  by (cases "mouthCues s = []";
      auto simp: chained_def finalize_def round2_0 contiguous_snoc split: if_splits)+

text \<open>
  C1. Whatever capture steps follow a reset, the cue list that
  \<open>finalizeAndDownloadJSON\<close> exports is contiguous: each cue ends where the next one
  starts, and the first cue starts at 0. The list has a first cue whenever the end time
  is not negative, which holds for every end time an audio element can give. The times
  of the steps need not even be ordered for this.
\<close>

theorem finalize_contiguous:
  "let segs = data_mouthCues (snd (finalizeAndDownloadJSON a (samples fs (resetCapture s))))
   in (\<forall>i. Suc i < length segs \<longrightarrow> seg_end (segs ! i) = seg_start (segs ! Suc i)) \<and>
      (segs \<noteq> [] \<longrightarrow> seg_start (segs ! 0) = 0) \<and>
      (0 \<le> endTime a \<longrightarrow> segs \<noteq> [])"
proof -
  let ?s = "samples fs (resetCapture s)"
  have c: "chained ?s"
    by (simp add: chained_samples chained_reset)
  have eq: "data_mouthCues (snd (finalizeAndDownloadJSON a ?s)) =
            mouthCues (finalize (endTime a) ?s)"
    by (simp add: finalizeAndDownloadJSON_blocks exportDocument_def)
  show ?thesis
    unfolding Let_def eq
    using chained_finalize [OF c, of "endTime a"]
      contiguous_nth [of "mouthCues (finalize (endTime a) ?s)"]
    by (auto simp: hd_conv_nth)
qed

theorem finalize_contiguous_witness:
  "(let a = \<lparr>paused = False, currentTime = 6 / 5, duration = Some (6 / 5)\<rparr>;
        segs = data_mouthCues (snd (finalizeAndDownloadJSON a
                 (samples [(0, ''X''), (1 / 2, ''A''), (1, ''A'')]
                    (resetCapture initialCapture))))
    in 0 \<le> endTime a \<and> segs \<noteq> [] \<and> Suc 0 < length segs \<and>
       seg_end (segs ! 0) = seg_start (segs ! Suc 0) \<and> seg_start (segs ! 0) = 0 \<and>
       segs = [\<lparr>seg_start = 0, seg_end = 1 / 2, seg_value = ''X''\<rparr>,
               \<lparr>seg_start = 1 / 2, seg_end = 6 / 5, seg_value = ''A''\<rparr>])"
  using finalize_contiguous
    [of "\<lparr>paused = False, currentTime = 6 / 5, duration = Some (6 / 5)\<rparr>"
        "[(0, ''X''), (1 / 2, ''A''), (1, ''A'')]" initialCapture]
  by (simp add: Let_def finalizeAndDownloadJSON_def endTime_def num_or_def str_or_def
      sample_def resetCapture_def initialCapture_def round2_def math_round_def)

subsection \<open>The capture step\<close>

text \<open>
  C2, as stated for every recorder state, fails on the first frame of a run: with no cue
  pushed yet and the time at 0, a step whose viseme differs from the current one pushes
  nothing; it only takes the viseme over as the current one.
\<close>

theorem sample_first_frame_counterexample:
  "''A'' \<noteq> currentViseme initialCapture \<and>
   sample 0 ''A'' initialCapture \<noteq>
     initialCapture
       \<lparr>mouthCues := mouthCues initialCapture @
          [\<lparr>seg_start = round2 (segmentStart initialCapture), seg_end = round2 0,
            seg_value = currentViseme initialCapture\<rparr>],
        currentViseme := ''A'', segmentStart := 0\<rparr> \<and>
   mouthCues (sample 0 ''A'' initialCapture) = []"
  by (simp add: sample_def initialCapture_def)

text \<open>
  C2, amended. On every step that is not the first frame of a run (a cue has been pushed,
  or the time is not 0): when the viseme differs from the current one, exactly the cue
  \<open>{round2(segmentStart), round2(now), currentViseme}\<close> is appended and the viseme and
  \<open>now\<close> become the current viseme and the start of the open segment; when the viseme
  is the current one the whole state stays as it is. On the first frame (no cue pushed and
  the time at 0) nothing is appended, the viseme becomes the current one and the open
  segment starts at 0.
\<close>

theorem sample_step:
  "(\<not> (mouthCues s = [] \<and> now = 0) \<and> viseme \<noteq> currentViseme s \<longrightarrow>
      sample now viseme s =
        s\<lparr>mouthCues := mouthCues s @
              [\<lparr>seg_start = round2 (segmentStart s), seg_end = round2 now,
                seg_value = currentViseme s\<rparr>],
          currentViseme := viseme, segmentStart := now\<rparr>) \<and>
   (\<not> (mouthCues s = [] \<and> now = 0) \<and> viseme = currentViseme s \<longrightarrow>
      sample now viseme s = s) \<and>
   (mouthCues s = [] \<and> now = 0 \<longrightarrow>
      sample now viseme s = s\<lparr>currentViseme := viseme, segmentStart := 0\<rparr>)"
  by (simp add: sample_cases)

theorem sample_step_witness:
  "mouthCues (sample (1 / 2) ''A'' initialCapture) \<noteq> [] \<and>
   ''B'' \<noteq> currentViseme (sample (1 / 2) ''A'' initialCapture) \<and>
   sample 1 ''B'' (sample (1 / 2) ''A'' initialCapture) =
     \<lparr>mouthCues = [\<lparr>seg_start = 0, seg_end = 1 / 2, seg_value = ''X''\<rparr>,
                   \<lparr>seg_start = 1 / 2, seg_end = 1, seg_value = ''A''\<rparr>],
      currentViseme = ''B'', segmentStart = 1, uploadedFileName = [], audioDuration = 0\<rparr> \<and>
   ''A'' = currentViseme (sample (1 / 2) ''A'' initialCapture) \<and>
   sample 1 ''A'' (sample (1 / 2) ''A'' initialCapture) =
     sample (1 / 2) ''A'' initialCapture \<and>
   mouthCues initialCapture = [] \<and>
   sample 0 ''B'' initialCapture =
     \<lparr>mouthCues = [], currentViseme = ''B'', segmentStart = 0, uploadedFileName = [],
      audioDuration = 0\<rparr>"
  using sample_step [of "sample (1 / 2) ''A'' initialCapture" 1 "''B''"]
    sample_step [of "sample (1 / 2) ''A'' initialCapture" 1 "''A''"]
    sample_step [of initialCapture 0 "''B''"]
  by (simp add: sample_def initialCapture_def round2_def math_round_def)

subsection \<open>Order and rounding of the cues\<close>











subsection \<open>Closing the open segment\<close>

text \<open>
  C4. \<open>finalizeAndDownloadJSON\<close> appends the cue
  \<open>{round2(segmentStart), round2(endTime), currentViseme}\<close> when
  \<open>segmentStart \<le> endTime\<close> and leaves the capture state as it is otherwise; the cue
  list of the document is the list after that step, the appended cue included. A step
  \<open>(0, 'B')\<close> after a reset, closed at end time 0, gives exactly \<open>[{0, 0, 'B'}]\<close>.
\<close>

theorem finalize_close_guard:
  "(segmentStart s \<le> endTime a \<longrightarrow>
      mouthCues (fst (finalizeAndDownloadJSON a s)) =
        mouthCues s @ [\<lparr>seg_start = round2 (segmentStart s), seg_end = round2 (endTime a),
                         seg_value = currentViseme s\<rparr>]) \<and>
   (\<not> segmentStart s \<le> endTime a \<longrightarrow> fst (finalizeAndDownloadJSON a s) = s) \<and>
   data_mouthCues (snd (finalizeAndDownloadJSON a s)) =
     mouthCues (fst (finalizeAndDownloadJSON a s)) \<and>
   data_mouthCues (snd (finalizeAndDownloadJSON
       \<lparr>paused = False, currentTime = 0, duration = None\<rparr>
       (sample 0 ''B'' (resetCapture s)))) =
     [\<lparr>seg_start = 0, seg_end = 0, seg_value = ''B''\<rparr>]"
  by (simp add: finalizeAndDownloadJSON_def Let_def sample_cases resetCapture_def
      endTime_def num_or_def round2_0)

theorem finalize_close_guard_witness:
  "segmentStart (sample (1 / 2) ''A'' initialCapture) \<le>
     endTime \<lparr>paused = False, currentTime = 1, duration = Some (6 / 5)\<rparr> \<and>
   mouthCues (fst (finalizeAndDownloadJSON
       \<lparr>paused = False, currentTime = 1, duration = Some (6 / 5)\<rparr>
       (sample (1 / 2) ''A'' initialCapture))) =
     [\<lparr>seg_start = 0, seg_end = 1 / 2, seg_value = ''X''\<rparr>,
      \<lparr>seg_start = 1 / 2, seg_end = 6 / 5, seg_value = ''A''\<rparr>] \<and>
   \<not> segmentStart (sample (1 / 2) ''A'' initialCapture) \<le>
       endTime \<lparr>paused = True, currentTime = 0, duration = None\<rparr> \<and>
   fst (finalizeAndDownloadJSON \<lparr>paused = True, currentTime = 0, duration = None\<rparr>
       (sample (1 / 2) ''A'' initialCapture)) =
     sample (1 / 2) ''A'' initialCapture"
  using finalize_close_guard
    [of "sample (1 / 2) ''A'' initialCapture"
        "\<lparr>paused = False, currentTime = 1, duration = Some (6 / 5)\<rparr>"]
    finalize_close_guard
    [of "sample (1 / 2) ''A'' initialCapture"
        "\<lparr>paused = True, currentTime = 0, duration = None\<rparr>"]
  by (simp add: endTime_def num_or_def sample_def initialCapture_def round2_def
      math_round_def)

text \<open>
  C6. Rapid alternation: after a reset, the steps \<open>(0, 'A')\<close>, \<open>(0.1, 'B')\<close>,
  \<open>(0.2, 'A')\<close> and the export at end time 0.3 give exactly the three cues
  \<open>{0, 0.1, 'A'}\<close>, \<open>{0.1, 0.2, 'B'}\<close>, \<open>{0.2, 0.3, 'A'}\<close>: the two runs of \<open>'A'\<close>
  are not merged.
\<close>

theorem rapid_alternation_not_merged:
  "data_mouthCues (snd (finalizeAndDownloadJSON
       \<lparr>paused = False, currentTime = 3 / 10, duration = Some (3 / 10)\<rparr>
       (samples [(0, ''A''), (1 / 10, ''B''), (2 / 10, ''A'')] (resetCapture s)))) =
     [\<lparr>seg_start = 0, seg_end = 1 / 10, seg_value = ''A''\<rparr>,
      \<lparr>seg_start = 1 / 10, seg_end = 2 / 10, seg_value = ''B''\<rparr>,
      \<lparr>seg_start = 2 / 10, seg_end = 3 / 10, seg_value = ''A''\<rparr>]"
  by (simp add: finalizeAndDownloadJSON_def Let_def sample_def resetCapture_def endTime_def
      num_or_def round2_def math_round_def)

text \<open>
  C10. When the audio element reports a duration other than 0, that duration is the end
  time whatever the current playback position is: the document's \<open>metadata.duration\<close>
  is \<open>round2(duration)\<close>, and when the open segment does not start after it, the cue
  appended last ends at \<open>round2(duration)\<close>.
\<close>

theorem finalize_uses_full_duration:
  assumes "duration a = Some d" and "d \<noteq> 0"
  shows "endTime a = d \<and>
         md_duration (data_metadata (snd (finalizeAndDownloadJSON a s))) = round2 d \<and>
         (segmentStart s \<le> d \<longrightarrow>
            data_mouthCues (snd (finalizeAndDownloadJSON a s)) =
              mouthCues s @ [\<lparr>seg_start = round2 (segmentStart s), seg_end = round2 d,
                               seg_value = currentViseme s\<rparr>] \<and>
            seg_end (last (data_mouthCues (snd (finalizeAndDownloadJSON a s)))) = round2 d)"
  using assms
  by (simp add: finalizeAndDownloadJSON_def Let_def endTime_def num_or_def)

theorem finalize_uses_full_duration_witness:
  "duration \<lparr>paused = True, currentTime = 1, duration = Some (7 / 2)\<rparr> = Some (7 / 2) \<and>
   (7 / 2 :: real) \<noteq> 0 \<and>
   segmentStart (sample (1 / 2) ''A'' initialCapture) \<le> 7 / 2 \<and>
   endTime \<lparr>paused = True, currentTime = 1, duration = Some (7 / 2)\<rparr> = 7 / 2 \<and>
   finalizeAndDownloadJSON \<lparr>paused = True, currentTime = 1, duration = Some (7 / 2)\<rparr>
       (sample (1 / 2) ''A'' initialCapture) =
     (\<lparr>mouthCues = [\<lparr>seg_start = 0, seg_end = 1 / 2, seg_value = ''X''\<rparr>,
                    \<lparr>seg_start = 1 / 2, seg_end = 7 / 2, seg_value = ''A''\<rparr>],
       currentViseme = ''A'', segmentStart = 1 / 2, uploadedFileName = [],
       audioDuration = 0\<rparr>,
      \<lparr>data_metadata = \<lparr>soundFile = ''unknown'', md_duration = 7 / 2\<rparr>,
       data_mouthCues = [\<lparr>seg_start = 0, seg_end = 1 / 2, seg_value = ''X''\<rparr>,
                         \<lparr>seg_start = 1 / 2, seg_end = 7 / 2, seg_value = ''A''\<rparr>]\<rparr>)"
  using finalize_uses_full_duration
    [of "\<lparr>paused = True, currentTime = 1, duration = Some (7 / 2)\<rparr>" "7 / 2"
        "sample (1 / 2) ''A'' initialCapture"]
  by (simp add: finalizeAndDownloadJSON_def Let_def endTime_def num_or_def str_or_def
      sample_def initialCapture_def round2_def math_round_def)

subsection \<open>What the export changes\<close>

text \<open>
  C7, as stated, fails: the function that builds and downloads the document is
  \<open>finalizeAndDownloadJSON\<close>, and it appends the closing cue to the cue list before it
  builds the document. From the initial state, with the playback time at 0, the cue list
  it leaves is not the one it found.
\<close>

theorem export_appends_counterexample:
  "mouthCues initialCapture = [] \<and>
   mouthCues (fst (finalizeAndDownloadJSON
       \<lparr>paused = False, currentTime = 0, duration = None\<rparr> initialCapture)) =
     [\<lparr>seg_start = 0, seg_end = 0, seg_value = ''X''\<rparr>] \<and>
   fst (finalizeAndDownloadJSON
       \<lparr>paused = False, currentTime = 0, duration = None\<rparr> initialCapture) \<noteq>
     initialCapture"
  by (simp add: finalizeAndDownloadJSON_def Let_def endTime_def num_or_def
      initialCapture_def round2_def math_round_def)

text \<open>
  C7, amended. \<open>finalizeAndDownloadJSON\<close> changes the capture state in one way only:
  when \<open>segmentStart \<le> endTime\<close> it appends the closing cue to the cue list, and
  otherwise it leaves the whole state as it is. The current viseme, the start of the open
  segment, the file name and the stored duration are never changed. The document it
  produces is read from that state: the metadata are the file name (\<open>'unknown'\<close> for an
  empty one) and the rounded end time, and the cues are the cue list after the closing
  step.
\<close>

theorem export_changes_cues_only:
  "(segmentStart s \<le> endTime a \<longrightarrow>
      fst (finalizeAndDownloadJSON a s) =
        s\<lparr>mouthCues := mouthCues s @
              [\<lparr>seg_start = round2 (segmentStart s), seg_end = round2 (endTime a),
                seg_value = currentViseme s\<rparr>]\<rparr>) \<and>
   (\<not> segmentStart s \<le> endTime a \<longrightarrow> fst (finalizeAndDownloadJSON a s) = s) \<and>
   currentViseme (fst (finalizeAndDownloadJSON a s)) = currentViseme s \<and>
   segmentStart (fst (finalizeAndDownloadJSON a s)) = segmentStart s \<and>
   uploadedFileName (fst (finalizeAndDownloadJSON a s)) = uploadedFileName s \<and>
   audioDuration (fst (finalizeAndDownloadJSON a s)) = audioDuration s \<and>
   snd (finalizeAndDownloadJSON a s) =
     \<lparr>data_metadata =
        \<lparr>soundFile = (if uploadedFileName s = [] then ''unknown'' else uploadedFileName s),
         md_duration = round2 (endTime a)\<rparr>,
      data_mouthCues = mouthCues (fst (finalizeAndDownloadJSON a s))\<rparr>"
  by (simp add: finalizeAndDownloadJSON_def Let_def str_or_def)

theorem export_changes_cues_only_witness:
  "segmentStart (sample (1 / 2) ''A'' initialCapture) \<le>
     endTime \<lparr>paused = False, currentTime = 1, duration = Some (5 / 4)\<rparr> \<and>
   finalizeAndDownloadJSON \<lparr>paused = False, currentTime = 1, duration = Some (5 / 4)\<rparr>
       (sample (1 / 2) ''A'' initialCapture) =
     (\<lparr>mouthCues = [\<lparr>seg_start = 0, seg_end = 1 / 2, seg_value = ''X''\<rparr>,
                    \<lparr>seg_start = 1 / 2, seg_end = 5 / 4, seg_value = ''A''\<rparr>],
       currentViseme = ''A'', segmentStart = 1 / 2, uploadedFileName = [],
       audioDuration = 0\<rparr>,
      \<lparr>data_metadata = \<lparr>soundFile = ''unknown'', md_duration = 5 / 4\<rparr>,
       data_mouthCues = [\<lparr>seg_start = 0, seg_end = 1 / 2, seg_value = ''X''\<rparr>,
                         \<lparr>seg_start = 1 / 2, seg_end = 5 / 4, seg_value = ''A''\<rparr>]\<rparr>) \<and>
   \<not> segmentStart (sample (1 / 2) ''A'' initialCapture) \<le>
       endTime \<lparr>paused = True, currentTime = 0, duration = None\<rparr> \<and>
   finalizeAndDownloadJSON \<lparr>paused = True, currentTime = 0, duration = None\<rparr>
       (sample (1 / 2) ''A'' initialCapture) =
     (sample (1 / 2) ''A'' initialCapture,
      \<lparr>data_metadata = \<lparr>soundFile = ''unknown'', md_duration = 0\<rparr>,
       data_mouthCues = [\<lparr>seg_start = 0, seg_end = 1 / 2, seg_value = ''X''\<rparr>]\<rparr>)"
  using export_changes_cues_only
    [of "sample (1 / 2) ''A'' initialCapture"
        "\<lparr>paused = False, currentTime = 1, duration = Some (5 / 4)\<rparr>"]
    export_changes_cues_only
    [of "sample (1 / 2) ''A'' initialCapture"
        "\<lparr>paused = True, currentTime = 0, duration = None\<rparr>"]
  by (simp add: finalizeAndDownloadJSON_def Let_def endTime_def num_or_def str_or_def
      sample_def initialCapture_def round2_def math_round_def)

subsection \<open>Reset\<close>

text \<open>
  C8. \<open>resetCapture\<close> is idempotent: a second reset leaves the state of the first, in
  which the cue list is empty, the current viseme is \<open>'X'\<close>, and the start of the open
  segment and the stored duration are 0.
\<close>

theorem resetCapture_idempotent:
  "resetCapture (resetCapture s) = resetCapture s \<and>
   mouthCues (resetCapture s) = [] \<and> currentViseme (resetCapture s) = ''X'' \<and>
   segmentStart (resetCapture s) = 0 \<and> audioDuration (resetCapture s) = 0"
  by (simp add: resetCapture_def)

subsection \<open>The stop button\<close>

text \<open>
  C9. With at least one cue pushed and an open segment that does not start before 0, the
  stop handler's own closing block does nothing: the handler has set the current time to
  0 before the block reads it, so the strict test \<open>segmentStart < endTime\<close> fails, and
  the document the handler exports is the one \<open>finalizeAndDownloadJSON\<close> builds from
  the untouched state.
\<close>

theorem stop_handler_never_closes:
  assumes "0 \<le> segmentStart s" and "mouthCues s \<noteq> []"
  shows "currentTime (fst (stopBtn_click a s)) = 0 \<and>
         stopClose (a\<lparr>paused := True, currentTime := 0\<rparr>) s = s \<and>
         snd (snd (stopBtn_click a s)) =
           snd (finalizeAndDownloadJSON (a\<lparr>paused := True, currentTime := 0\<rparr>) s)"
  using assms
  by (simp add: stopBtn_click_data)
     (simp add: stopBtn_click_def stopClose_def num_or_def Let_def split: prod.splits)

theorem stop_handler_never_closes_witness:
  "0 \<le> segmentStart (sample (1 / 2) ''A'' initialCapture) \<and>
   mouthCues (sample (1 / 2) ''A'' initialCapture) \<noteq> [] \<and>
   stopClose \<lparr>paused = True, currentTime = 0, duration = Some (7 / 2)\<rparr>
       (sample (1 / 2) ''A'' initialCapture) =
     sample (1 / 2) ''A'' initialCapture \<and>
   snd (snd (stopBtn_click \<lparr>paused = False, currentTime = 1, duration = Some (7 / 2)\<rparr>
       (sample (1 / 2) ''A'' initialCapture))) =
     \<lparr>data_metadata = \<lparr>soundFile = ''unknown'', md_duration = 7 / 2\<rparr>,
      data_mouthCues = [\<lparr>seg_start = 0, seg_end = 1 / 2, seg_value = ''X''\<rparr>,
                        \<lparr>seg_start = 1 / 2, seg_end = 7 / 2, seg_value = ''A''\<rparr>]\<rparr>"
  using stop_handler_never_closes
    [of "sample (1 / 2) ''A'' initialCapture"
        "\<lparr>paused = False, currentTime = 1, duration = Some (7 / 2)\<rparr>"]
  by (simp add: finalizeAndDownloadJSON_def Let_def endTime_def num_or_def str_or_def
      sample_def initialCapture_def round2_def math_round_def)

text \<open>
  C5. Stopping while no cue has been pushed: the handler's own block pushes the single cue
  \<open>{0, 0, 'X'}\<close>, but the export that the handler goes on to run closes the open segment
  as well, so the exported list has two cues. Here playback of a file of 3.5 seconds is
  stopped after two frames on which the viseme stayed \<open>'X'\<close>.
\<close>

theorem stop_before_first_cue_exports_two:
  "mouthCues (samples [(0, ''X''), (1 / 2, ''X'')] (resetCapture initialCapture)) = [] \<and>
   mouthCues (stopClose \<lparr>paused = True, currentTime = 0, duration = Some (7 / 2)\<rparr>
       (samples [(0, ''X''), (1 / 2, ''X'')] (resetCapture initialCapture))) =
     [\<lparr>seg_start = 0, seg_end = 0, seg_value = ''X''\<rparr>] \<and>
   data_mouthCues (snd (snd (stopBtn_click
       \<lparr>paused = False, currentTime = 1 / 2, duration = Some (7 / 2)\<rparr>
       (samples [(0, ''X''), (1 / 2, ''X'')] (resetCapture initialCapture))))) =
     [\<lparr>seg_start = 0, seg_end = 0, seg_value = ''X''\<rparr>,
      \<lparr>seg_start = 0, seg_end = 7 / 2, seg_value = ''X''\<rparr>]"
  by (simp add: stopBtn_click_def stopClose_def finalizeAndDownloadJSON_def Let_def
      sample_def resetCapture_def initialCapture_def endTime_def num_or_def round2_def
      math_round_def)

end
